theory Spec2Isabelle
  imports Complex_Main "HOL-Library.Word" "HOL-Library.Signed_Division"
begin

section \<open>Machine types of PowerHintSession.cpp\<close>

text \<open>
  The C++ integer types are words of their width. Addition, subtraction and multiplication
  wrap around (two's complement, as the target hardware does; C++ leaves signed overflow
  undefined). Signed comparisons are \<open><s\<close> and \<open>\<le>s\<close>; the plain order on words is the
  unsigned one.
\<close>

type_synonym int32_t = "32 word"
type_synonym uint32_t = "32 word"
type_synonym int64_t = "64 word"
type_synonym uint64_t = "64 word"

text \<open>
  \<open>double\<close> values are modelled by exact real arithmetic. IEEE-754 rounds every result to
  53 significant bits; the two agree wherever operands and results are representable,
  which holds at every concrete evaluation below (small integers and one half). Elsewhere
  they can differ in the last unit (the exact product of 1000000 and the \<open>double\<close> nearest
  to 0.7 truncates to 699999, the rounded one to 700000), so no theorem below states the
  value of such a product.
\<close>

type_synonym double = real

definition int64_div :: "int64_t \<Rightarrow> int64_t \<Rightarrow> int64_t" where
  \<comment> \<open>C++ \<open>/\<close> on \<open>int64_t\<close>: the quotient is truncated towards zero. The divisor must not be 0.\<close>
  "int64_div a b = word_of_int (sint a sdiv sint b)"

definition smin :: "'a::len word \<Rightarrow> 'a word \<Rightarrow> 'a word" where
  \<comment> \<open>\<open>std::min(a, b)\<close> at a signed type: \<open>(b < a) ? b : a\<close>.\<close>
  "smin a b = (if b <s a then b else a)"

definition smax :: "'a::len word \<Rightarrow> 'a word \<Rightarrow> 'a word" where
  \<comment> \<open>\<open>std::max(a, b)\<close> at a signed type: \<open>(a < b) ? b : a\<close>.\<close>
  "smax a b = (if a <s b then b else a)"

definition int64_to_double :: "int64_t \<Rightarrow> double" where
  \<comment> \<open>the implicit conversion of an \<open>int64_t\<close> operand in a \<open>double\<close> expression\<close>
  "int64_to_double w = real_of_int (sint w)"

definition truncate_double :: "double \<Rightarrow> int" where
  \<comment> \<open>the fractional part is discarded\<close>
  "truncate_double r = (if 0 \<le> r then \<lfloor>r\<rfloor> else \<lceil>r\<rceil>)"

definition double_to_int64 :: "double \<Rightarrow> int64_t" where
  \<comment> \<open>\<open>static_cast<int64_t>\<close> of a \<open>double\<close>: truncation towards zero. A value outside the
      range of \<open>int64_t\<close> is undefined in C++; here it is reduced modulo \<open>2 ^ 64\<close>.\<close>
  "double_to_int64 r = word_of_int (truncate_double r)"

definition ns_to_100us :: "int64_t \<Rightarrow> int64_t" where
  "ns_to_100us ns = int64_div ns 100000"

section \<open>Profile, environment and external collaborators\<close>

text \<open>
  \<open>AdpfConfig\<close> is declared in \<open>perfmgr/AdpfConfig.h\<close> of libperfmgr. The record holds
  the fields that PowerHintSession.cpp reads, with the types declared there (gains and
  time factors are \<open>double\<close>, window sizes \<open>uint64_t\<close>, uclamp bounds \<open>uint32_t\<close>), and
  the results of the two getters \<open>getPidIHighDivI()\<close> and \<open>getPidILowDivI()\<close>, which are
  \<open>int64_t\<close>, as they are returned.
\<close>

record AdpfConfig =
  mPidOn :: bool
  mPidPo :: double
  mPidPu :: double
  mPidI :: double
  mPidDo :: double
  mPidDu :: double
  getPidIHighDivI :: int64_t
  getPidILowDivI :: int64_t
  mSamplingWindowP :: uint64_t
  mSamplingWindowI :: uint64_t
  mSamplingWindowD :: uint64_t
  mUclampMinInit :: uint32_t
  mUclampMinHigh :: uint32_t
  mUclampMinLow :: uint32_t
  mStaleTimeFactor :: double
  mTargetTimeFactor :: double

text \<open>
  What a call reads from outside the session: the steady clock in nanoseconds (one reading
  stands for all the readings of \<open>steady_clock::now()\<close> within a call), the hint manager's
  \<open>IsHintSupported\<close>, and the platform constant \<open>AID_APP_START\<close>.
\<close>

record Env =
  now :: int64_t
  IsHintSupported :: "string \<Rightarrow> bool"
  AID_APP_START :: int32_t

datatype AdpfHintType =
  ADPF_VOTE_DEFAULT | ADPF_CPU_LOAD_UP | ADPF_CPU_LOAD_RESET | ADPF_CPU_LOAD_RESUME

text \<open>
  The calls a session makes on \<open>PowerSessionManager\<close> and \<open>HintManager\<close>, in the order made.
  \<open>voteSet\<close> carries session id, vote kind, uclamp minimum, start time and validity; its
  uclamp maximum is always the constant \<open>kUclampMax\<close> and is left out.
\<close>

datatype Call =
    addPowerSession int64_t "int32_t list"
  | removePowerSession int64_t
  | voteSet int64_t AdpfHintType int32_t int64_t int64_t
  | PSManager_pause int64_t
  | PSManager_resume int64_t
  | PSManager_updateTargetWorkDuration int64_t AdpfHintType int64_t
  | updateUniversalBoostMode
  | disableBoosts int64_t
  | setThreadsFromPowerSession int64_t "int32_t list"
  | DoHint string

section \<open>Session data\<close>

datatype ScopedAStatus = ok | EX_ILLEGAL_STATE | EX_ILLEGAL_ARGUMENT

datatype SessionHint =
  CPU_LOAD_UP | CPU_LOAD_DOWN | CPU_LOAD_RESET | CPU_LOAD_RESUME | SessionHint_other int32_t

datatype SessionMode = POWER_EFFICIENCY | SessionMode_other int32_t

record WorkDuration =
  durationNanos :: int64_t

record AppHintDesc =
  sessionId :: int64_t
  tgid :: int32_t
  uid :: int32_t
  targetNs :: int64_t
  pidSetPoint :: int32_t
  is_active :: bool
  update_count :: uint64_t
  integral_error :: int64_t
  previous_error :: int64_t

text \<open>
  \<open>SessionHint_other\<close> and \<open>SessionMode_other\<close> stand for every value of the two
  enumerations that the \<open>switch\<close> statements send to \<open>default\<close>. \<open>mLastHintSent\<close> is
  \<open>None\<close> for the initial \<open>-1\<close>. \<open>calls\<close> is the log of the calls made on the external
  collaborators, oldest first. The identifier string and the trace names only feed the
  log and the tracer and are left out.
\<close>

record PowerHintSession =
  mSessionId :: int64_t
  mDescriptor :: AppHintDesc
  mLastUpdatedTime :: int64_t
  mSessionClosed :: bool
  mSupportedHints :: "string \<Rightarrow> bool option"
  mLastHintSent :: "SessionHint option"
  mModes :: "SessionMode \<Rightarrow> bool"
  calls :: "Call list"

datatype Fault = DivisionByZero

definition emit :: "Call \<Rightarrow> PowerHintSession \<Rightarrow> PowerHintSession" where
  "emit c s = s\<lparr>calls := calls s @ [c]\<rparr>"

section \<open>The PID computation\<close>

definition window_start :: "uint64_t \<Rightarrow> int64_t \<Rightarrow> int64_t" where
  \<comment> \<open>\<open>samplingWindow == 0 || samplingWindow > length ? 0 : length - samplingWindow\<close>;
      the comparison and the subtraction are unsigned, \<open>length\<close> being converted.\<close>
  "window_start samplingWindow len =
     (if samplingWindow = 0 \<or> len < samplingWindow then 0 else len - samplingWindow)"

text \<open>
  One pass of the \<open>for\<close> loop per element, from index \<open>i\<close> on. The state is
  \<open>(err_sum, derivative_sum, descriptor)\<close>: \<open>integral_error\<close> and \<open>previous_error\<close> are
  references into the descriptor. The warning about a duration far from the target only
  writes to the log, as do the trace calls: neither is part of the state.
\<close>

fun pid_loop ::
  "AdpfConfig \<Rightarrow> int64_t \<Rightarrow> int64_t \<Rightarrow> int64_t \<times> int64_t \<times> int64_t \<Rightarrow> nat \<Rightarrow> WorkDuration list
     \<Rightarrow> int64_t \<times> int64_t \<times> AppHintDesc \<Rightarrow> int64_t \<times> int64_t \<times> AppHintDesc" where
  "pid_loop cfg targetDurationNanos dt starts i [] st = st"
| "pid_loop cfg targetDurationNanos dt (p_start, i_start, d_start) i (a # rest)
      (err_sum, derivative_sum, d) =
     (let actualDurationNanos = durationNanos a;
          error = ns_to_100us (actualDurationNanos - targetDurationNanos);
          derivative_sum' =
            (if d_start \<le>s of_nat i then derivative_sum + (error - previous_error d)
             else derivative_sum);
          err_sum' = (if p_start \<le>s of_nat i then err_sum + error else err_sum);
          d1 = (if i_start \<le>s of_nat i
                then d\<lparr>integral_error :=
                        smax (getPidILowDivI cfg)
                          (smin (getPidIHighDivI cfg) (integral_error d + error * dt))\<rparr>
                else d);
          d2 = d1\<lparr>previous_error := error\<rparr>
      in pid_loop cfg targetDurationNanos dt (p_start, i_start, d_start) (Suc i) rest
           (err_sum', derivative_sum', d2))"

text \<open>
  The divisions by \<open>dt\<close> (the \<open>double\<close> one of \<open>dOut\<close>, whose infinite or NaN quotient is
  then cast to \<open>int64_t\<close>, and the integer one passed to the trace) are undefined for
  \<open>dt = 0\<close>: that outcome is the fault \<open>DivisionByZero\<close>. \<open>length - p_start\<close> and
  \<open>length - d_start\<close> are at least 1 for a non-empty vector.
\<close>

definition convertWorkDurationToBoostByPid ::
  "AdpfConfig \<Rightarrow> WorkDuration list \<Rightarrow> PowerHintSession \<Rightarrow> Fault + (int64_t \<times> PowerHintSession)" where
  "convertWorkDurationToBoostByPid cfg actualDurations s =
     (let targetDurationNanos = targetNs (mDescriptor s);
          len = (of_nat (length actualDurations) :: int64_t);
          p_start = window_start (mSamplingWindowP cfg) len;
          i_start = window_start (mSamplingWindowI cfg) len;
          d_start = window_start (mSamplingWindowD cfg) len;
          dt = ns_to_100us targetDurationNanos;
          i0 = nat (sint (smin (smin p_start i_start) d_start));
          (err_sum, derivative_sum, d) =
            pid_loop cfg targetDurationNanos dt (p_start, i_start, d_start) i0
              (drop i0 actualDurations) (0, 0, mDescriptor s)
      in if dt = 0 then Inl DivisionByZero
         else
           let pOut = double_to_int64
                 ((if 0 <s err_sum then mPidPo cfg else mPidPu cfg) * int64_to_double err_sum
                    / int64_to_double (len - p_start));
               iOut = double_to_int64 (mPidI cfg * int64_to_double (integral_error d));
               dOut = double_to_int64
                 ((if 0 <s derivative_sum then mPidDo cfg else mPidDu cfg)
                    * int64_to_double derivative_sum / int64_to_double dt
                    / int64_to_double (len - d_start));
               output = pOut + iOut + dOut
           in Inr (output, s\<lparr>mDescriptor := d\<rparr>))"

section \<open>Session operations\<close>

definition AppHintDesc_new :: "int64_t \<Rightarrow> int32_t \<Rightarrow> int32_t \<Rightarrow> int64_t \<Rightarrow> AppHintDesc" where
  "AppHintDesc_new sid tg u pTargetNs =
     \<lparr>sessionId = sid, tgid = tg, uid = u, targetNs = pTargetNs, pidSetPoint = 0,
      is_active = True, update_count = 0, integral_error = 0, previous_error = 0\<rparr>"

definition PowerHintSession_new ::
  "AdpfConfig \<Rightarrow> Env \<Rightarrow> int64_t \<Rightarrow> int32_t \<Rightarrow> int32_t \<Rightarrow> int32_t list \<Rightarrow> int64_t \<Rightarrow> PowerHintSession" where
  \<comment> \<open>the constructor; \<open>sid\<close> is the value of \<open>++sSessionIDCounter\<close>\<close>
  "PowerHintSession_new cfg env sid tg u threadIds durationNs =
     (let d = AppHintDesc_new sid tg u durationNs;
          s = \<lparr>mSessionId = sid, mDescriptor = d, mLastUpdatedTime = now env,
               mSessionClosed = False, mSupportedHints = (\<lambda>_. None), mLastHintSent = None,
               mModes = (\<lambda>_. False), calls = []\<rparr>;
          s = emit (addPowerSession sid threadIds) s;
          s = emit (voteSet sid ADPF_CPU_LOAD_RESET (mUclampMinHigh cfg) (now env)
                 (double_to_int64 (int64_to_double (targetNs d) * mStaleTimeFactor cfg / 2))) s
      in emit (voteSet sid ADPF_VOTE_DEFAULT (mUclampMinInit cfg) (now env) (targetNs d)) s)"

definition isAppSession :: "Env \<Rightarrow> PowerHintSession \<Rightarrow> bool" where
  "isAppSession env s = (AID_APP_START env \<le>s uid (mDescriptor s))"

definition updatePidSetPoint ::
  "AdpfConfig \<Rightarrow> Env \<Rightarrow> int32_t \<Rightarrow> bool \<Rightarrow> PowerHintSession \<Rightarrow> PowerHintSession" where
  "updatePidSetPoint cfg env pidSetPoint' updateVote s =
     (let s1 = s\<lparr>mDescriptor := (mDescriptor s)\<lparr>pidSetPoint := pidSetPoint'\<rparr>\<rparr>
      in if updateVote
         then emit (voteSet (mSessionId s1) ADPF_VOTE_DEFAULT pidSetPoint' (now env)
                (double_to_int64
                   (int64_to_double (targetNs (mDescriptor s1)) * mStaleTimeFactor cfg))) s1
         else s1)"

definition tryToSendPowerHint :: "Env \<Rightarrow> string \<Rightarrow> PowerHintSession \<Rightarrow> PowerHintSession" where
  "tryToSendPowerHint env hint s =
     (let s1 = (case mSupportedHints s hint of
                  None \<Rightarrow> s\<lparr>mSupportedHints :=
                              (mSupportedHints s)(hint := Some (IsHintSupported env hint))\<rparr>
                | Some _ \<Rightarrow> s)
      in if mSupportedHints s1 hint = Some True then emit (DoHint hint) s1 else s1)"

definition isActive :: "PowerHintSession \<Rightarrow> bool" where
  "isActive s = is_active (mDescriptor s)"

definition isTimeout :: "AdpfConfig \<Rightarrow> Env \<Rightarrow> PowerHintSession \<Rightarrow> bool" where
  "isTimeout cfg env s =
     (let staleTime = mLastUpdatedTime s
            + double_to_int64 (int64_to_double (targetNs (mDescriptor s)) * mStaleTimeFactor cfg)
      in staleTime \<le>s now env)"

definition pause :: "PowerHintSession \<Rightarrow> ScopedAStatus \<times> PowerHintSession" where
  "pause s =
     (if mSessionClosed s then (EX_ILLEGAL_STATE, s)
      else if \<not> is_active (mDescriptor s) then (EX_ILLEGAL_STATE, s)
      else (ok, emit (PSManager_pause (mSessionId s))
                  (s\<lparr>mDescriptor := (mDescriptor s)\<lparr>is_active := False\<rparr>\<rparr>)))"

definition resume :: "PowerHintSession \<Rightarrow> ScopedAStatus \<times> PowerHintSession" where
  "resume s =
     (if mSessionClosed s then (EX_ILLEGAL_STATE, s)
      else if is_active (mDescriptor s) then (EX_ILLEGAL_STATE, s)
      else (ok, emit (PSManager_resume (mSessionId s))
                  (s\<lparr>mDescriptor := (mDescriptor s)\<lparr>is_active := True\<rparr>\<rparr>)))"

definition close :: "PowerHintSession \<Rightarrow> ScopedAStatus \<times> PowerHintSession" where
  \<comment> \<open>\<open>compare_exchange_strong(false, true)\<close> fails exactly when the flag is already set\<close>
  "close s =
     (if mSessionClosed s then (EX_ILLEGAL_STATE, s)
      else let s1 = s\<lparr>mSessionClosed := True\<rparr>;
               s2 = emit (removePowerSession (mSessionId s1)) s1
           in (ok, s2\<lparr>mDescriptor := (mDescriptor s2)\<lparr>is_active := False\<rparr>\<rparr>))"

definition updateTargetWorkDuration ::
  "AdpfConfig \<Rightarrow> int64_t \<Rightarrow> PowerHintSession \<Rightarrow> ScopedAStatus \<times> PowerHintSession" where
  "updateTargetWorkDuration cfg targetDurationNanos s =
     (if mSessionClosed s then (EX_ILLEGAL_STATE, s)
      else if targetDurationNanos \<le>s 0 then (EX_ILLEGAL_ARGUMENT, s)
      else let targetDurationNanos' =
                 double_to_int64 (int64_to_double targetDurationNanos * mTargetTimeFactor cfg);
               s1 = s\<lparr>mDescriptor := (mDescriptor s)\<lparr>targetNs := targetDurationNanos'\<rparr>\<rparr>
           in (ok, emit (PSManager_updateTargetWorkDuration (mSessionId s1) ADPF_VOTE_DEFAULT
                           (targetNs (mDescriptor s1))) s1))"

definition report_accepted :: "AdpfConfig \<Rightarrow> Env \<Rightarrow> PowerHintSession \<Rightarrow> PowerHintSession" where
  \<comment> \<open>the statements of \<open>reportActualWorkDuration\<close> between its guards and the test of
      \<open>mPidOn\<close>: the counter, the first-frame hint, the timestamp, \<open>disableBoosts\<close>\<close>
  "report_accepted cfg env s =
     (let s1 = s\<lparr>mDescriptor :=
                 (mDescriptor s)\<lparr>update_count := update_count (mDescriptor s) + 1\<rparr>\<rparr>;
          isFirstFrame = isTimeout cfg env s1;
          s2 = s1\<lparr>mLastUpdatedTime := now env\<rparr>;
          s3 = (if isFirstFrame
                then emit updateUniversalBoostMode
                       (if isAppSession env s2
                        then tryToSendPowerHint env ''ADPF_FIRST_FRAME'' s2 else s2)
                else s2)
      in emit (disableBoosts (mSessionId s3)) s3)"

definition reportActualWorkDuration ::
  "AdpfConfig \<Rightarrow> Env \<Rightarrow> WorkDuration list \<Rightarrow> PowerHintSession
     \<Rightarrow> Fault + (ScopedAStatus \<times> PowerHintSession)" where
  "reportActualWorkDuration cfg env actualDurations s =
     (if mSessionClosed s then Inr (EX_ILLEGAL_STATE, s)
      else if targetNs (mDescriptor s) = 0 then Inr (EX_ILLEGAL_STATE, s)
      else if actualDurations = [] then Inr (EX_ILLEGAL_ARGUMENT, s)
      else if \<not> is_active (mDescriptor s) then Inr (EX_ILLEGAL_STATE, s)
      else
        let s4 = report_accepted cfg env s
        in if \<not> mPidOn cfg
           then Inr (ok, updatePidSetPoint cfg env (mUclampMinHigh cfg) True s4)
           else
             (case convertWorkDurationToBoostByPid cfg actualDurations s4 of
                Inl f \<Rightarrow> Inl f
              | Inr (output, s5) \<Rightarrow>
                  let next_min = smin (mUclampMinHigh cfg)
                                   (pidSetPoint (mDescriptor s5) + ucast output);
                      next_min' = smax (mUclampMinLow cfg) next_min
                  in Inr (ok, updatePidSetPoint cfg env next_min' True s5)))"

fun toString :: "SessionHint \<Rightarrow> string" where
  "toString CPU_LOAD_UP = ''CPU_LOAD_UP''"
| "toString CPU_LOAD_DOWN = ''CPU_LOAD_DOWN''"
| "toString CPU_LOAD_RESET = ''CPU_LOAD_RESET''"
| "toString CPU_LOAD_RESUME = ''CPU_LOAD_RESUME''"
| "toString (SessionHint_other n) = ''''"

definition sendHint_finish :: "Env \<Rightarrow> SessionHint \<Rightarrow> PowerHintSession \<Rightarrow> ScopedAStatus \<times> PowerHintSession" where
  \<comment> \<open>the statements of \<open>sendHint\<close> after the \<open>switch\<close>\<close>
  "sendHint_finish env hint s =
     (let s1 = tryToSendPowerHint env (toString hint) s
      in (ok, s1\<lparr>mLastUpdatedTime := now env, mLastHintSent := Some hint\<rparr>))"

definition sendHint ::
  "AdpfConfig \<Rightarrow> Env \<Rightarrow> SessionHint \<Rightarrow> PowerHintSession \<Rightarrow> ScopedAStatus \<times> PowerHintSession" where
  "sendHint cfg env hint s =
     (if mSessionClosed s then (EX_ILLEGAL_STATE, s)
      else if targetNs (mDescriptor s) = 0 then (EX_ILLEGAL_STATE, s)
      else
        (case hint of
           CPU_LOAD_UP \<Rightarrow>
             (let s1 = updatePidSetPoint cfg env (pidSetPoint (mDescriptor s)) True s
              in sendHint_finish env hint
                   (emit (voteSet (mSessionId s1) ADPF_CPU_LOAD_UP (mUclampMinHigh cfg) (now env)
                            (targetNs (mDescriptor s1) * 2)) s1))
         | CPU_LOAD_DOWN \<Rightarrow>
             sendHint_finish env hint (updatePidSetPoint cfg env (mUclampMinLow cfg) True s)
         | CPU_LOAD_RESET \<Rightarrow>
             (let s1 = updatePidSetPoint cfg env
                         (max (mUclampMinInit cfg) (pidSetPoint (mDescriptor s))) False s
              in sendHint_finish env hint
                   (emit (voteSet (mSessionId s1) ADPF_CPU_LOAD_RESET (mUclampMinHigh cfg) (now env)
                            (double_to_int64
                               (int64_to_double (targetNs (mDescriptor s1)) * mStaleTimeFactor cfg
                                  / 2))) s1))
         | CPU_LOAD_RESUME \<Rightarrow>
             sendHint_finish env hint
               (emit (voteSet (mSessionId s) ADPF_CPU_LOAD_RESUME (pidSetPoint (mDescriptor s))
                        (now env)
                        (double_to_int64
                           (int64_to_double (targetNs (mDescriptor s)) * mStaleTimeFactor cfg / 2)))
                  s)
         | SessionHint_other n \<Rightarrow> (EX_ILLEGAL_ARGUMENT, s)))"

definition setMode ::
  "Env \<Rightarrow> SessionMode \<Rightarrow> bool \<Rightarrow> PowerHintSession \<Rightarrow> ScopedAStatus \<times> PowerHintSession" where
  "setMode env mode enabled s =
     (if mSessionClosed s then (EX_ILLEGAL_STATE, s)
      else
        (case mode of
           POWER_EFFICIENCY \<Rightarrow>
             (ok, s\<lparr>mModes := (mModes s)(mode := enabled), mLastUpdatedTime := now env\<rparr>)
         | SessionMode_other n \<Rightarrow> (EX_ILLEGAL_ARGUMENT, s)))"

definition setThreads ::
  "AdpfConfig \<Rightarrow> Env \<Rightarrow> int32_t list \<Rightarrow> PowerHintSession \<Rightarrow> ScopedAStatus \<times> PowerHintSession" where
  "setThreads cfg env threadIds s =
     (if mSessionClosed s then (EX_ILLEGAL_STATE, s)
      else if threadIds = [] then (EX_ILLEGAL_ARGUMENT, s)
      else (ok, updatePidSetPoint cfg env (mUclampMinInit cfg) True
                  (emit (setThreadsFromPowerSession (mSessionId s) threadIds) s)))"

section \<open>The session interface\<close>

text \<open>
  One request per remote call of the session interface. \<open>serve\<close> runs one request,
  \<open>serve_all\<close> a sequence of them, each under the environment of its own moment, and
  stops at a fault.
\<close>

datatype Request =
    Close
  | Pause
  | Resume
  | UpdateTargetWorkDuration int64_t
  | ReportActualWorkDuration "WorkDuration list"
  | SendHint SessionHint
  | SetMode SessionMode bool
  | SetThreads "int32_t list"

fun serve ::
  "AdpfConfig \<Rightarrow> Env \<Rightarrow> Request \<Rightarrow> PowerHintSession
     \<Rightarrow> Fault + (ScopedAStatus \<times> PowerHintSession)" where
  "serve cfg env Close s = Inr (close s)"
| "serve cfg env Pause s = Inr (pause s)"
| "serve cfg env Resume s = Inr (resume s)"
| "serve cfg env (UpdateTargetWorkDuration n) s = Inr (updateTargetWorkDuration cfg n s)"
| "serve cfg env (ReportActualWorkDuration ds) s = reportActualWorkDuration cfg env ds s"
| "serve cfg env (SendHint h) s = Inr (sendHint cfg env h s)"
| "serve cfg env (SetMode m enabled) s = Inr (setMode env m enabled s)"
| "serve cfg env (SetThreads tids) s = Inr (setThreads cfg env tids s)"

fun serve_all ::
  "AdpfConfig \<Rightarrow> (Env \<times> Request) list \<Rightarrow> PowerHintSession
     \<Rightarrow> Fault + (ScopedAStatus list \<times> PowerHintSession)" where
  "serve_all cfg [] s = Inr ([], s)"
| "serve_all cfg ((env, r) # rs) s =
     (case serve cfg env r s of
        Inl f \<Rightarrow> Inl f
      | Inr (st, s') \<Rightarrow>
          (case serve_all cfg rs s' of
             Inl f \<Rightarrow> Inl f
           | Inr (sts, s'') \<Rightarrow> Inr (st # sts, s'')))"

section \<open>A concrete profile and session\<close>

text \<open>
  A profile with PID control on, every gain 1, full-history windows and a target-time
  factor of 1; a session of an application (uid 10001) opened with a target of 1 ms.
\<close>

definition example_config :: AdpfConfig where
  "example_config =
     \<lparr>mPidOn = True, mPidPo = 1, mPidPu = 1, mPidI = 1, mPidDo = 1, mPidDu = 1,
      getPidIHighDivI = 512, getPidILowDivI = - 512,
      mSamplingWindowP = 0, mSamplingWindowI = 0, mSamplingWindowD = 0,
      mUclampMinInit = 100, mUclampMinHigh = 480, mUclampMinLow = 2,
      mStaleTimeFactor = 20, mTargetTimeFactor = 1\<rparr>"

definition example_env :: Env where
  "example_env = \<lparr>now = 1000, IsHintSupported = (\<lambda>_. True), AID_APP_START = 10000\<rparr>"

definition example_session :: PowerHintSession where
  "example_session = PowerHintSession_new example_config example_env 1 100 10001 [7] 1000000"

section \<open>Auxiliary facts\<close>

lemmas session_ops =
  close_def pause_def resume_def updateTargetWorkDuration_def reportActualWorkDuration_def
  sendHint_def setMode_def setThreads_def

lemmas example_defs =
  example_session_def example_config_def example_env_def PowerHintSession_new_def
  AppHintDesc_new_def emit_def

lemmas numeric_defs =
  ns_to_100us_def int64_div_def signed_divide_int_def smin_def smax_def
  int64_to_double_def double_to_int64_def truncate_double_def window_start_def
  ceiling_def word_sle_eq word_sless_alt

lemmas report_defs =
  reportActualWorkDuration_def report_accepted_def convertWorkDurationToBoostByPid_def
  updatePidSetPoint_def isTimeout_def isAppSession_def tryToSendPowerHint_def Let_def

subsection \<open>Words of 64 bits\<close>

lemma sint_word_of_int_64:
  "- (2 ^ 63) \<le> k \<Longrightarrow> k < 2 ^ 63 \<Longrightarrow> sint (word_of_int k :: 64 word) = k"
  by (simp add: signed_of_int signed_take_bit_int_eq_self)

lemma uint_word_of_int_64:
  "0 \<le> k \<Longrightarrow> k < 2 ^ 64 \<Longrightarrow> uint (word_of_int k :: 64 word) = k"
  by (simp add: uint_word_of_int)

lemma sint_eq_uint_64: "uint (w :: 64 word) < 2 ^ 63 \<Longrightarrow> sint w = uint w"
proof -
  assume "uint w < 2 ^ 63"
  moreover have "- (2 ^ 63) \<le> uint w"
    by (rule order_trans [of _ 0]) simp_all
  ultimately have "signed_take_bit 63 (uint w) = uint w"
    by (simp add: signed_take_bit_int_eq_self)
  then show ?thesis by (simp add: sint_uint)
qed

lemma uint_of_nat_64: "n < 2 ^ 63 \<Longrightarrow> uint (of_nat n :: 64 word) = int n"
proof -
  assume "n < 2 ^ 63"
  then have "int n < 2 ^ 64" by simp
  then show ?thesis
    using uint_word_of_int_64 [of "int n"] by simp
qed

lemma sint_of_nat_64: "n < 2 ^ 63 \<Longrightarrow> sint (of_nat n :: 64 word) = int n"
  using sint_word_of_int_64 [of "int n"] by simp

lemma sint_inject: "sint (a :: 'a::len word) = sint b \<Longrightarrow> a = b"
  by (rule signed_word_eqI)

subsection \<open>Signed minimum, maximum and clamping\<close>

lemma smin_cases: "smin a b = a \<or> smin a b = b"
  by (simp add: smin_def)

lemma smin_same: "smin a a = a"
  by (simp add: smin_def)

lemma smax_smin_within:
  assumes "lo \<le>s hi"
  shows "lo \<le>s smax lo (smin hi x) \<and> smax lo (smin hi x) \<le>s hi"
  using assms by (auto simp: smax_def smin_def word_sle_eq word_sless_alt)

lemma clamp_inside:
  "lo \<le>s x \<Longrightarrow> x \<le>s hi \<Longrightarrow> smax lo (smin hi x) = x"
  by (auto simp: smax_def smin_def word_sle_eq word_sless_alt
        intro: sint_inject sint_inject [symmetric])

subsection \<open>Conversions at zero and the divisor of the PID terms\<close>

lemma ns_to_100us_0: "ns_to_100us 0 = 0"
  by (simp add: ns_to_100us_def int64_div_def)

lemma double_to_int64_0: "double_to_int64 0 = 0"
  by (simp add: double_to_int64_def truncate_double_def)

lemma int64_to_double_0: "int64_to_double 0 = 0"
  by (simp add: int64_to_double_def)

lemma abs_div_le: "\<bar>k\<bar> div 100000 \<le> \<bar>k :: int\<bar>"
proof -
  have "\<bar>k\<bar> div 100000 * 1 \<le> \<bar>k\<bar> div 100000 * 100000"
    by (intro mult_left_mono) (simp_all add: pos_imp_zdiv_nonneg_iff)
  also have "\<dots> \<le> \<bar>k\<bar>"
    using div_mult_mod_eq [of "\<bar>k\<bar>" 100000] pos_mod_sign [of 100000 "\<bar>k\<bar>"] by linarith
  finally show ?thesis by simp
qed

text \<open>The divisor \<open>dt\<close> is 0 exactly for targets of less than 100 microseconds.\<close>

lemma ns_to_100us_eq_0_iff:
  "ns_to_100us t = 0 \<longleftrightarrow> - 100000 <s t \<and> t <s 100000"
proof -
  let ?k = "sint t"
  let ?q = "?k sdiv 100000"
  have range: "- (2 ^ 63) \<le> ?k" "?k < 2 ^ 63"
    using sint_ge [of t] sint_less [of t] by simp_all
  have q: "?q = sgn ?k * (\<bar>?k\<bar> div 100000)"
    by (simp add: signed_divide_int_def)
  have nonneg: "0 \<le> \<bar>?k\<bar> div 100000"
    by (simp add: pos_imp_zdiv_nonneg_iff)
  have "\<bar>?q\<bar> = \<bar>?k\<bar> div 100000"
  proof (cases "?k = 0")
    case True
    then show ?thesis by (simp add: q)
  next
    case False
    with nonneg show ?thesis by (simp add: q abs_mult abs_sgn_eq)
  qed
  then have qr: "- (2 ^ 63) \<le> ?q" "?q < 2 ^ 63" "?q = 0 \<longleftrightarrow> \<bar>?k\<bar> div 100000 = 0"
    using abs_div_le [of ?k] range by linarith+
  have "ns_to_100us t = 0 \<longleftrightarrow> ?q = 0"
    using sint_word_of_int_64 [OF qr(1,2)]
    by (auto simp: ns_to_100us_def int64_div_def)
  also have "\<dots> \<longleftrightarrow> \<bar>?k\<bar> < 100000"
    using qr(3) div_mult_mod_eq [of "\<bar>?k\<bar>" 100000] pos_mod_bound [of 100000 "\<bar>?k\<bar>"]
      div_pos_pos_trivial [of "\<bar>?k\<bar>" 100000]
    by auto
  also have "\<dots> \<longleftrightarrow> - 100000 <s t \<and> t <s 100000"
    by (auto simp: word_sless_alt)
  finally show ?thesis .
qed

subsection \<open>Window starts\<close>

lemma sint_window_start:
  assumes "n < 2 ^ 63"
  shows "sint (window_start W (of_nat n)) = (if W = 0 then 0 else max 0 (int n - uint W))"
proof -
  let ?len = "of_nat n :: 64 word"
  have len: "uint ?len = int n" using assms by (rule uint_of_nat_64)
  show ?thesis
  proof (cases "W = 0 \<or> ?len < W")
    case True
    then have "window_start W ?len = 0" by (simp add: window_start_def)
    moreover have "W \<noteq> 0 \<Longrightarrow> int n - uint W < 0"
      using True len by (simp add: word_less_def)
    ultimately show ?thesis by auto
  next
    case False
    then have le: "uint W \<le> int n" and nz: "W \<noteq> 0"
      using len by (simp_all add: word_less_def not_less)
    have u: "uint (?len - W) = int n - uint W"
      using le len by (simp add: uint_sub_if')
    have "int n - uint W < 2 ^ 63" using assms by (simp add: order.strict_trans1 [of _ "int n"])
    then have "sint (?len - W) = int n - uint W"
      using u sint_eq_uint_64 [of "?len - W"] by simp
    then show ?thesis using False le by (simp add: window_start_def)
  qed
qed

lemma window_start_bounds:
  assumes "0 < n" "n < 2 ^ 63"
  shows "0 \<le> sint (window_start W (of_nat n)) \<and> sint (window_start W (of_nat n)) \<le> int n - 1"
proof -
  have "W \<noteq> 0 \<Longrightarrow> 0 < uint W"
    using uint_0_iff [of W] uint_ge_0 [of W] by linarith
  then show ?thesis
    using assms by (auto simp: sint_window_start)
qed

subsection \<open>The loop and the integral accumulator\<close>

text \<open>
  The last element of the vector is always inside the I window, so the accumulator leaves
  the loop clamped.
\<close>

lemma pid_loop_integral_within:
  assumes "getPidILowDivI cfg \<le>s getPidIHighDivI cfg"
    and "xs \<noteq> []"
    and "i_start \<le>s of_nat (i + length xs - 1)"
  shows "getPidILowDivI cfg
           \<le>s integral_error (snd (snd (pid_loop cfg T dt (p_start, i_start, d_start) i xs st)))
       \<and> integral_error (snd (snd (pid_loop cfg T dt (p_start, i_start, d_start) i xs st)))
           \<le>s getPidIHighDivI cfg"
  using assms(2,3)
proof (induction xs arbitrary: i st)
  case Nil
  then show ?case by simp
next
  case (Cons a rest)
  obtain e ds d where st: "st = (e, ds, d)" by (cases st)
  show ?case
  proof (cases "rest = []")
    case True
    with Cons.prems st smax_smin_within [OF assms(1)] show ?thesis
      by (simp add: Let_def)
  next
    case False
    have "i_start \<le>s of_nat (Suc i + length rest - 1)"
      using Cons.prems(2) by simp
    from Cons.IH [OF False this] st show ?thesis
      by (simp add: Let_def)
  qed
qed

lemma convert_integral_within:
  assumes bounds: "getPidILowDivI cfg \<le>s getPidIHighDivI cfg"
    and ne: "ds \<noteq> []"
    and len: "length ds < 2 ^ 63"
    and conv: "convertWorkDurationToBoostByPid cfg ds s = Inr (out, s')"
  shows "getPidILowDivI cfg \<le>s integral_error (mDescriptor s')
       \<and> integral_error (mDescriptor s') \<le>s getPidIHighDivI cfg"
proof -
  let ?n = "length ds"
  let ?len = "of_nat ?n :: int64_t"
  let ?p = "window_start (mSamplingWindowP cfg) ?len"
  let ?i = "window_start (mSamplingWindowI cfg) ?len"
  let ?d = "window_start (mSamplingWindowD cfg) ?len"
  let ?m = "smin (smin ?p ?i) ?d"
  let ?from = "nat (sint ?m)"
  let ?T = "targetNs (mDescriptor s)"
  let ?r = "pid_loop cfg ?T (ns_to_100us ?T) (?p, ?i, ?d) ?from (drop ?from ds)
              (0, 0, mDescriptor s)"
  have pos: "0 < ?n" using ne by simp
  have bp: "0 \<le> sint ?p \<and> sint ?p \<le> int ?n - 1"
    and bi: "0 \<le> sint ?i \<and> sint ?i \<le> int ?n - 1"
    and bd: "0 \<le> sint ?d \<and> sint ?d \<le> int ?n - 1"
    using window_start_bounds [OF pos len] by blast+
  have "?m = ?p \<or> ?m = ?i \<or> ?m = ?d"
    using smin_cases [of "smin ?p ?i" ?d] smin_cases [of ?p ?i] by auto
  then have bm: "0 \<le> sint ?m \<and> sint ?m \<le> int ?n - 1"
    using bp bi bd by auto
  then have fromlt: "?from < ?n" by linarith
  then have rest: "drop ?from ds \<noteq> []" by simp
  have last: "?from + length (drop ?from ds) - 1 = ?n - 1"
    using fromlt by simp
  have "sint (of_nat (?n - 1) :: int64_t) = int (?n - 1)"
    using len by (intro sint_of_nat_64) simp
  moreover have "int (?n - 1) = int ?n - 1"
    using ne by (cases ds) simp_all
  ultimately have "?i \<le>s of_nat (?n - 1)"
    using bi unfolding word_sle_eq by linarith
  then have "?i \<le>s of_nat (?from + length (drop ?from ds) - 1)"
    by (simp only: last)
  from pid_loop_integral_within [OF bounds rest this]
  have r: "getPidILowDivI cfg \<le>s integral_error (snd (snd ?r))
         \<and> integral_error (snd (snd ?r)) \<le>s getPidIHighDivI cfg" .
  have "mDescriptor s' = snd (snd ?r)"
    using conv
    by (simp add: convertWorkDurationToBoostByPid_def Let_def split: if_splits prod.splits)
       (auto simp: snd_def split: prod.splits)
  with r show ?thesis by simp
qed

subsection \<open>What the operations leave alone\<close>

lemma updatePidSetPoint_integral:
  "integral_error (mDescriptor (updatePidSetPoint cfg env v b s)) = integral_error (mDescriptor s)"
  by (simp add: updatePidSetPoint_def emit_def Let_def)

lemma updatePidSetPoint_pidSetPoint:
  "pidSetPoint (mDescriptor (updatePidSetPoint cfg env v b s)) = v"
  by (simp add: updatePidSetPoint_def emit_def Let_def)

lemma report_accepted_descriptor:
  "mDescriptor (report_accepted cfg env s)
     = (mDescriptor s)\<lparr>update_count := update_count (mDescriptor s) + 1\<rparr>"
  by (simp add: report_accepted_def emit_def tryToSendPowerHint_def Let_def
        split: option.splits)

lemma sendHint_integral:
  "integral_error (mDescriptor (snd (sendHint cfg env h s))) = integral_error (mDescriptor s)"
  by (cases h)
     (simp_all add: sendHint_def sendHint_finish_def tryToSendPowerHint_def emit_def Let_def
        updatePidSetPoint_integral split: option.splits)

text \<open>Only a report writes the integral accumulator.\<close>

lemma serve_keeps_integral:
  assumes "serve cfg env r s = Inr (st, s')"
    and "\<And>ds. r \<noteq> ReportActualWorkDuration ds"
  shows "integral_error (mDescriptor s') = integral_error (mDescriptor s)"
proof (cases r)
  case (SendHint h)
  with assms(1) sendHint_integral [of cfg env h s] show ?thesis by auto
next
  case (SetMode m enabled)
  with assms(1) show ?thesis by (cases m) (auto simp: setMode_def split: if_splits)
next
  case (ReportActualWorkDuration ds)
  with assms(2) [of ds] show ?thesis by simp
qed (use assms(1) in \<open>auto simp: close_def pause_def resume_def updateTargetWorkDuration_def
       setThreads_def emit_def Let_def updatePidSetPoint_integral split: if_splits\<close>)

text \<open>
  A report on a session whose accumulator is within the bounds leaves it within them,
  whatever its status.
\<close>

lemma report_keeps_integral_within:
  assumes bounds: "getPidILowDivI cfg \<le>s getPidIHighDivI cfg"
    and len: "length ds < 2 ^ 63"
    and inv: "getPidILowDivI cfg \<le>s integral_error (mDescriptor s)
            \<and> integral_error (mDescriptor s) \<le>s getPidIHighDivI cfg"
    and run: "reportActualWorkDuration cfg env ds s = Inr (st, s')"
  shows "getPidILowDivI cfg \<le>s integral_error (mDescriptor s')
       \<and> integral_error (mDescriptor s') \<le>s getPidIHighDivI cfg"
proof (cases "st = ok \<and> mPidOn cfg")
  case True
  with run obtain out s4 s5 where
    ne: "ds \<noteq> []"
    and conv: "convertWorkDurationToBoostByPid cfg ds s4 = Inr (out, s5)"
    and s': "integral_error (mDescriptor s') = integral_error (mDescriptor s5)"
    by (auto simp: reportActualWorkDuration_def Let_def updatePidSetPoint_integral
          split: if_splits sum.splits prod.splits)
  from convert_integral_within [OF bounds ne len conv] s' show ?thesis by simp
next
  case False
  with run have "integral_error (mDescriptor s') = integral_error (mDescriptor s)"
    by (auto simp: reportActualWorkDuration_def Let_def updatePidSetPoint_integral
          report_accepted_descriptor split: if_splits sum.splits prod.splits)
  with inv show ?thesis by simp
qed

subsection \<open>A report exactly on target\<close>

lemma convert_on_target:
  assumes "mSamplingWindowP cfg = 0" "mSamplingWindowI cfg = 0" "mSamplingWindowD cfg = 0"
    and "mPidPo cfg = 1" "mPidPu cfg = 1" "mPidI cfg = 1" "mPidDo cfg = 1" "mPidDu cfg = 1"
    and "getPidILowDivI cfg \<le>s 0" "0 \<le>s getPidIHighDivI cfg"
    and "integral_error (mDescriptor s) = 0" "previous_error (mDescriptor s) = 0"
    and "ns_to_100us (targetNs (mDescriptor s)) \<noteq> 0"
  shows "convertWorkDurationToBoostByPid cfg [\<lparr>durationNanos = targetNs (mDescriptor s)\<rparr>] s
       = Inr (0, s)"
proof -
  have clamp: "smax (getPidILowDivI cfg) (smin (getPidIHighDivI cfg) 0) = 0"
    using assms(9,10) by (rule clamp_inside)
  have "(mDescriptor s)\<lparr>integral_error := 0, previous_error := 0\<rparr> = mDescriptor s"
    using assms(11,12) by (metis AppHintDesc.surjective AppHintDesc.update_convs(8,9))
  then show ?thesis
    using assms clamp
    by (simp add: convertWorkDurationToBoostByPid_def window_start_def Let_def
          smin_same ns_to_100us_0 double_to_int64_0 int64_to_double_0)
qed

subsection \<open>A report against a target of less than 100 microseconds\<close>

lemma convert_short_target:
  assumes "ns_to_100us (targetNs (mDescriptor s)) = 0"
  shows "convertWorkDurationToBoostByPid cfg ds s = Inl DivisionByZero"
  using assms by (simp add: convertWorkDurationToBoostByPid_def Let_def split: prod.splits)

lemma report_short_target:
  assumes "\<not> mSessionClosed s" and "is_active (mDescriptor s)" and "ds \<noteq> []"
    and "mPidOn cfg" and "targetNs (mDescriptor s) \<noteq> 0"
    and "- 100000 <s targetNs (mDescriptor s)" and "targetNs (mDescriptor s) <s 100000"
  shows "reportActualWorkDuration cfg env ds s = Inl DivisionByZero"
proof -
  have "ns_to_100us (targetNs (mDescriptor (report_accepted cfg env s))) = 0"
    using assms(6,7) by (simp add: report_accepted_descriptor ns_to_100us_eq_0_iff)
  then have "convertWorkDurationToBoostByPid cfg ds (report_accepted cfg env s)
      = Inl DivisionByZero"
    by (rule convert_short_target)
  with assms(1-5) show ?thesis
    by (simp add: reportActualWorkDuration_def)
qed

subsection \<open>Closed sessions and failing calls\<close>

lemma serve_closed:
  "mSessionClosed s \<Longrightarrow> serve cfg env r s = Inr (EX_ILLEGAL_STATE, s)"
  by (cases r) (simp_all add: session_ops)

lemma serve_all_closed:
  "mSessionClosed s \<Longrightarrow> serve_all cfg rs s = Inr (replicate (length rs) EX_ILLEGAL_STATE, s)"
  by (induction rs) (auto simp: serve_closed)

lemma close_closed: "mSessionClosed s \<Longrightarrow> close s = (EX_ILLEGAL_STATE, s)"
  by (simp add: close_def)

lemma report_error_unchanged:
  "reportActualWorkDuration cfg env ds s = Inr (st, s') \<Longrightarrow> st \<noteq> ok \<Longrightarrow> s' = s"
  by (auto simp: reportActualWorkDuration_def Let_def split: if_splits sum.splits prod.splits)

lemma sendHint_error_unchanged:
  "sendHint cfg env h s = (st, s') \<Longrightarrow> st \<noteq> ok \<Longrightarrow> s' = s"
  by (cases h) (auto simp: sendHint_def sendHint_finish_def Let_def split: if_splits)

section \<open>Reporting an empty list of durations\<close>

text \<open>
  C1 (as amended). \<open>reportActualWorkDuration\<close> checks the closed flag, then the stored
  target, then the list: with an empty list it fails with \<open>EX_ILLEGAL_STATE\<close> on a closed
  session and on one whose stored target is 0, and with \<open>EX_ILLEGAL_ARGUMENT\<close> on every
  other session, active or paused. The session is left as it was.
\<close>

theorem report_empty_status:
  "reportActualWorkDuration cfg env [] s =
     Inr (if mSessionClosed s \<or> targetNs (mDescriptor s) = 0 then EX_ILLEGAL_STATE
          else EX_ILLEGAL_ARGUMENT, s)"
  by (simp add: reportActualWorkDuration_def)

text \<open>
  The closed example session answers an empty report with \<open>EX_ILLEGAL_STATE\<close>, not with
  \<open>EX_ILLEGAL_ARGUMENT\<close>.
\<close>

theorem report_empty_closed_counterexample:
  "reportActualWorkDuration example_config example_env [] (snd (close example_session))
     = Inr (EX_ILLEGAL_STATE, snd (close example_session))"
  by (simp add: reportActualWorkDuration_def close_def example_defs)

section \<open>The divisor of the derivative term\<close>

text \<open>
  C2 states that in every report that passes the guards and runs the PID computation the
  divisor \<open>ns_to_100us target\<close> is nonzero. The guard compares the target with 0, the
  divisor is the target divided by 100000: with a stored target of 50000 ns the report
  passes every guard, the divisor is 0, and the computation divides by it.
\<close>

theorem short_target_divides_by_zero:
  "updateTargetWorkDuration example_config 50000 example_session
     = (ok, snd (updateTargetWorkDuration example_config 50000 example_session))
   \<and> \<not> mSessionClosed (snd (updateTargetWorkDuration example_config 50000 example_session))
   \<and> is_active (mDescriptor (snd (updateTargetWorkDuration example_config 50000 example_session)))
   \<and> targetNs (mDescriptor (snd (updateTargetWorkDuration example_config 50000 example_session)))
       = 50000
   \<and> ns_to_100us 50000 = 0
   \<and> reportActualWorkDuration example_config example_env [\<lparr>durationNanos = 50000\<rparr>]
        (snd (updateTargetWorkDuration example_config 50000 example_session))
       = Inl DivisionByZero"
  by (simp add: updateTargetWorkDuration_def report_defs numeric_defs example_defs)

section \<open>Reporting right after setting the target\<close>

text \<open>
  C3 states that \<open>updateTargetWorkDuration d\<close> with \<open>d > 0\<close>, followed by a report of
  \<open>[d]\<close>, never fails as not yet targeted, whatever the target-time factor. The target is
  checked before it is scaled and stored after: with a factor of one half and \<open>d = 1\<close> the
  update succeeds, stores 0, and the report fails with \<open>EX_ILLEGAL_STATE\<close> at the guard
  on the stored target.
\<close>

theorem halved_target_is_not_targeted:
  "updateTargetWorkDuration (example_config\<lparr>mTargetTimeFactor := 1 / 2\<rparr>) 1 example_session
     = (ok, snd (updateTargetWorkDuration (example_config\<lparr>mTargetTimeFactor := 1 / 2\<rparr>) 1
               example_session))
   \<and> targetNs (mDescriptor (snd (updateTargetWorkDuration
         (example_config\<lparr>mTargetTimeFactor := 1 / 2\<rparr>) 1 example_session))) = 0
   \<and> reportActualWorkDuration (example_config\<lparr>mTargetTimeFactor := 1 / 2\<rparr>) example_env
        [\<lparr>durationNanos = 1\<rparr>]
        (snd (updateTargetWorkDuration (example_config\<lparr>mTargetTimeFactor := 1 / 2\<rparr>) 1
               example_session))
       = Inr (EX_ILLEGAL_STATE,
              snd (updateTargetWorkDuration (example_config\<lparr>mTargetTimeFactor := 1 / 2\<rparr>) 1
                     example_session))"
  by (simp add: updateTargetWorkDuration_def report_defs numeric_defs example_defs)

section \<open>A single sample exactly on target\<close>

text \<open>
  C4 (as amended). With all window sizes 0, all gains 1, PID control on, both accumulators
  0, an integral clamp range that contains 0 and a target of at least 100 microseconds in
  magnitude, a report of the single duration equal to the stored target on an open, active
  session succeeds; the PID computation returns boost 0 and leaves the accumulators at 0;
  the new set point is the old one clamped into \<open>[mUclampMinLow, mUclampMinHigh]\<close>, and so
  is unchanged whenever the old set point lies within these bounds.
\<close>

theorem report_on_target:
  assumes windows: "mSamplingWindowP cfg = 0" "mSamplingWindowI cfg = 0" "mSamplingWindowD cfg = 0"
    and gains: "mPidPo cfg = 1" "mPidPu cfg = 1" "mPidI cfg = 1" "mPidDo cfg = 1" "mPidDu cfg = 1"
    and pid: "mPidOn cfg"
    and bounds: "getPidILowDivI cfg \<le>s 0" "0 \<le>s getPidIHighDivI cfg"
    and session: "\<not> mSessionClosed s" "is_active (mDescriptor s)"
    and zero: "integral_error (mDescriptor s) = 0" "previous_error (mDescriptor s) = 0"
    and dt: "ns_to_100us (targetNs (mDescriptor s)) \<noteq> 0"
  shows "convertWorkDurationToBoostByPid cfg [\<lparr>durationNanos = targetNs (mDescriptor s)\<rparr>] s
           = Inr (0, s)
       \<and> (\<exists>s'. reportActualWorkDuration cfg env [\<lparr>durationNanos = targetNs (mDescriptor s)\<rparr>] s
                  = Inr (ok, s')
              \<and> pidSetPoint (mDescriptor s')
                  = smax (mUclampMinLow cfg)
                      (smin (mUclampMinHigh cfg) (pidSetPoint (mDescriptor s)))
              \<and> (mUclampMinLow cfg \<le>s pidSetPoint (mDescriptor s)
                   \<and> pidSetPoint (mDescriptor s) \<le>s mUclampMinHigh cfg
                  \<longrightarrow> pidSetPoint (mDescriptor s') = pidSetPoint (mDescriptor s)))"
proof -
  let ?T = "targetNs (mDescriptor s)"
  define s4 where "s4 = report_accepted cfg env s"
  have d4: "mDescriptor s4
      = (mDescriptor s)\<lparr>update_count := update_count (mDescriptor s) + 1\<rparr>"
    by (simp add: s4_def report_accepted_descriptor)
  have fields: "targetNs (mDescriptor s4) = ?T" "integral_error (mDescriptor s4) = 0"
    "previous_error (mDescriptor s4) = 0" "pidSetPoint (mDescriptor s4) = pidSetPoint (mDescriptor s)"
    using zero by (simp_all add: d4)
  have conv4: "convertWorkDurationToBoostByPid cfg [\<lparr>durationNanos = ?T\<rparr>] s4 = Inr (0, s4)"
    using convert_on_target [of cfg s4] windows gains bounds dt fields by simp
  have T: "?T \<noteq> 0" using dt by (auto simp: ns_to_100us_0)
  let ?next = "smax (mUclampMinLow cfg) (smin (mUclampMinHigh cfg) (pidSetPoint (mDescriptor s)))"
  have "reportActualWorkDuration cfg env [\<lparr>durationNanos = ?T\<rparr>] s
          = Inr (ok, updatePidSetPoint cfg env ?next True s4)"
    using session T pid conv4 fields(4)
    by (simp add: reportActualWorkDuration_def s4_def [symmetric])
  moreover have "mUclampMinLow cfg \<le>s pidSetPoint (mDescriptor s)
                   \<and> pidSetPoint (mDescriptor s) \<le>s mUclampMinHigh cfg
                  \<longrightarrow> ?next = pidSetPoint (mDescriptor s)"
    by (simp add: clamp_inside)
  ultimately show ?thesis
    using convert_on_target [OF windows gains bounds zero dt]
    by (simp add: updatePidSetPoint_pidSetPoint)
qed

theorem report_on_target_witness:
  "mSamplingWindowP example_config = 0 \<and> mSamplingWindowI example_config = 0
   \<and> mSamplingWindowD example_config = 0
   \<and> mPidPo example_config = 1 \<and> mPidPu example_config = 1 \<and> mPidI example_config = 1
   \<and> mPidDo example_config = 1 \<and> mPidDu example_config = 1 \<and> mPidOn example_config
   \<and> getPidILowDivI example_config \<le>s 0 \<and> 0 \<le>s getPidIHighDivI example_config
   \<and> \<not> mSessionClosed (snd (setThreads example_config example_env [7] example_session))
   \<and> is_active (mDescriptor (snd (setThreads example_config example_env [7] example_session)))
   \<and> integral_error (mDescriptor (snd (setThreads example_config example_env [7] example_session))) = 0
   \<and> previous_error (mDescriptor (snd (setThreads example_config example_env [7] example_session))) = 0
   \<and> ns_to_100us (targetNs (mDescriptor (snd (setThreads example_config example_env [7] example_session)))) \<noteq> 0
   \<and> mUclampMinLow example_config
        \<le>s pidSetPoint (mDescriptor (snd (setThreads example_config example_env [7] example_session)))
   \<and> pidSetPoint (mDescriptor (snd (setThreads example_config example_env [7] example_session)))
        \<le>s mUclampMinHigh example_config
   \<and> pidSetPoint (mDescriptor (snd (setThreads example_config example_env [7] example_session))) = 100
   \<and> fst (projr (reportActualWorkDuration example_config example_env
         [\<lparr>durationNanos = 1000000\<rparr>]
         (snd (setThreads example_config example_env [7] example_session)))) = ok
   \<and> pidSetPoint (mDescriptor (snd (projr (reportActualWorkDuration example_config example_env
         [\<lparr>durationNanos = 1000000\<rparr>]
         (snd (setThreads example_config example_env [7] example_session)))))) = 100"
proof -
  let ?s = "snd (setThreads example_config example_env [7] example_session)"
  have cfg: "mSamplingWindowP example_config = 0" "mSamplingWindowI example_config = 0"
    "mSamplingWindowD example_config = 0"
    "mPidPo example_config = 1" "mPidPu example_config = 1" "mPidI example_config = 1"
    "mPidDo example_config = 1" "mPidDu example_config = 1" "mPidOn example_config"
    "getPidILowDivI example_config \<le>s 0" "0 \<le>s getPidIHighDivI example_config"
    by (simp_all add: example_config_def word_sle_eq)
  have ses: "\<not> mSessionClosed ?s" "is_active (mDescriptor ?s)"
    "integral_error (mDescriptor ?s) = 0" "previous_error (mDescriptor ?s) = 0"
    by (simp_all add: setThreads_def updatePidSetPoint_def example_defs)
  have T: "targetNs (mDescriptor ?s) = 1000000"
    by (simp add: setThreads_def updatePidSetPoint_def example_defs)
  have dt: "ns_to_100us (targetNs (mDescriptor ?s)) \<noteq> 0"
    by (simp add: T numeric_defs)
  have sp: "pidSetPoint (mDescriptor ?s) = 100"
    by (simp add: setThreads_def updatePidSetPoint_pidSetPoint example_defs)
  have inside: "mUclampMinLow example_config \<le>s pidSetPoint (mDescriptor ?s)"
    "pidSetPoint (mDescriptor ?s) \<le>s mUclampMinHigh example_config"
    by (simp_all add: sp) (simp_all add: example_config_def)
  from report_on_target [OF cfg ses dt, of example_env] inside sp T
  have "fst (projr (reportActualWorkDuration example_config example_env
          [\<lparr>durationNanos = 1000000\<rparr>] ?s)) = ok
      \<and> pidSetPoint (mDescriptor (snd (projr (reportActualWorkDuration example_config example_env
          [\<lparr>durationNanos = 1000000\<rparr>] ?s)))) = 100"
    by auto
  with cfg ses dt inside sp show ?thesis by blast
qed

text \<open>
  On the freshly opened example session (set point 0, below \<open>mUclampMinLow = 2\<close>) the same
  report succeeds and moves the set point from 0 to 2.
\<close>

theorem report_on_target_moves_set_point_counterexample:
  "mSamplingWindowP example_config = 0 \<and> mSamplingWindowI example_config = 0
   \<and> mSamplingWindowD example_config = 0
   \<and> mPidPo example_config = 1 \<and> mPidPu example_config = 1 \<and> mPidI example_config = 1
   \<and> mPidDo example_config = 1 \<and> mPidDu example_config = 1 \<and> mPidOn example_config
   \<and> targetNs (mDescriptor example_session) = 1000000
   \<and> integral_error (mDescriptor example_session) = 0
   \<and> previous_error (mDescriptor example_session) = 0
   \<and> pidSetPoint (mDescriptor example_session) = 0
   \<and> reportActualWorkDuration example_config example_env [\<lparr>durationNanos = 1000000\<rparr>]
         example_session
       = Inr (ok, snd (projr (reportActualWorkDuration example_config example_env
                [\<lparr>durationNanos = 1000000\<rparr>] example_session)))
   \<and> pidSetPoint (mDescriptor (snd (projr (reportActualWorkDuration example_config example_env
         [\<lparr>durationNanos = 1000000\<rparr>] example_session)))) = 2"
  by (simp add: report_defs numeric_defs example_defs)

section \<open>Closing a session\<close>

text \<open>
  C5. \<open>close\<close> on an open session succeeds and sets the closed flag; a second \<open>close\<close>
  fails with \<open>EX_ILLEGAL_STATE\<close>; after it every request (pause, resume,
  updateTargetWorkDuration, reportActualWorkDuration, sendHint, setMode, setThreads, close)
  fails with \<open>EX_ILLEGAL_STATE\<close> and leaves the session closed, whatever sequence of
  requests follows.
\<close>

theorem close_is_final:
  assumes "\<not> mSessionClosed s"
  shows "fst (close s) = ok \<and> mSessionClosed (snd (close s))
       \<and> close (snd (close s)) = (EX_ILLEGAL_STATE, snd (close s))
       \<and> serve cfg env r (snd (close s)) = Inr (EX_ILLEGAL_STATE, snd (close s))
       \<and> serve_all cfg rs (snd (close s))
           = Inr (replicate (length rs) EX_ILLEGAL_STATE, snd (close s))"
proof -
  have c: "mSessionClosed (snd (close s))" "fst (close s) = ok"
    using assms by (simp_all add: close_def emit_def)
  have "close (snd (close s)) = (EX_ILLEGAL_STATE, snd (close s))"
    using c(1) by (rule close_closed)
  with c show ?thesis
    by (simp add: serve_closed [OF c(1)] serve_all_closed [OF c(1)])
qed

theorem close_is_final_witness:
  "\<not> mSessionClosed example_session
   \<and> fst (close example_session) = ok
   \<and> close (snd (close example_session)) = (EX_ILLEGAL_STATE, snd (close example_session))
   \<and> serve_all example_config
        [(example_env, Pause), (example_env, Resume),
         (example_env, UpdateTargetWorkDuration 1000000),
         (example_env, ReportActualWorkDuration [\<lparr>durationNanos = 1000000\<rparr>]),
         (example_env, SendHint CPU_LOAD_UP), (example_env, SetMode POWER_EFFICIENCY True),
         (example_env, SetThreads [7]), (example_env, Close)]
        (snd (close example_session))
      = Inr ([EX_ILLEGAL_STATE, EX_ILLEGAL_STATE, EX_ILLEGAL_STATE, EX_ILLEGAL_STATE,
              EX_ILLEGAL_STATE, EX_ILLEGAL_STATE, EX_ILLEGAL_STATE, EX_ILLEGAL_STATE],
             snd (close example_session))"
proof -
  have open_session: "\<not> mSessionClosed example_session"
    by (simp add: example_defs)
  have eight: "replicate 8 EX_ILLEGAL_STATE
      = [EX_ILLEGAL_STATE, EX_ILLEGAL_STATE, EX_ILLEGAL_STATE, EX_ILLEGAL_STATE,
         EX_ILLEGAL_STATE, EX_ILLEGAL_STATE, EX_ILLEGAL_STATE, EX_ILLEGAL_STATE]"
    by (simp add: numeral_eq_Suc)
  show ?thesis
    using open_session eight
      close_is_final [OF open_session, of example_config example_env Close
        "[(example_env, Pause), (example_env, Resume),
         (example_env, UpdateTargetWorkDuration 1000000),
         (example_env, ReportActualWorkDuration [\<lparr>durationNanos = 1000000\<rparr>]),
         (example_env, SendHint CPU_LOAD_UP), (example_env, SetMode POWER_EFFICIENCY True),
         (example_env, SetThreads [7]), (example_env, Close)]"]
    by simp
qed

section \<open>Pausing and resuming\<close>

text \<open>
  C6. On a session that is not closed, \<open>pause\<close> succeeds exactly when the session is
  active and \<open>resume\<close> exactly when it is paused; each fails with \<open>EX_ILLEGAL_STATE\<close>
  otherwise. A second \<open>pause\<close> right after a \<open>pause\<close>, and a second \<open>resume\<close> right
  after a \<open>resume\<close>, fail; from the active state \<open>pause\<close>, \<open>resume\<close>, \<open>pause\<close> succeed
  in that order.
\<close>

theorem pause_resume_alternate:
  assumes "\<not> mSessionClosed s"
  shows "fst (pause s) = (if is_active (mDescriptor s) then ok else EX_ILLEGAL_STATE)
       \<and> fst (resume s) = (if is_active (mDescriptor s) then EX_ILLEGAL_STATE else ok)
       \<and> fst (pause (snd (pause s))) = EX_ILLEGAL_STATE
       \<and> fst (resume (snd (resume s))) = EX_ILLEGAL_STATE
       \<and> (is_active (mDescriptor s) \<longrightarrow>
            fst (pause s) = ok \<and> fst (resume (snd (pause s))) = ok
            \<and> fst (pause (snd (resume (snd (pause s))))) = ok)"
  using assms by (simp add: pause_def resume_def emit_def)

theorem pause_resume_alternate_witness:
  "\<not> mSessionClosed example_session \<and> is_active (mDescriptor example_session)
   \<and> fst (pause example_session) = ok
   \<and> fst (resume (snd (pause example_session))) = ok
   \<and> fst (pause (snd (resume (snd (pause example_session))))) = ok
   \<and> fst (pause (snd (pause example_session))) = EX_ILLEGAL_STATE
   \<and> fst (resume (snd (resume (snd (pause example_session))))) = EX_ILLEGAL_STATE"
proof -
  have open_session: "\<not> mSessionClosed example_session"
    and active: "is_active (mDescriptor example_session)"
    by (simp_all add: example_defs)
  have paused: "\<not> mSessionClosed (snd (pause example_session))"
    by (simp add: pause_def example_defs)
  show ?thesis
    using open_session active pause_resume_alternate [OF open_session]
      pause_resume_alternate [OF paused]
    by simp
qed

section \<open>Window start indices\<close>

text \<open>
  C7. For a vector of \<open>n\<close> durations (a vector holds fewer than \<open>2 ^ 63\<close> elements) and a
  window size \<open>W\<close>, the start index computed for the P, I and D windows is 0 when
  \<open>W = 0\<close> and \<open>max 0 (n - W)\<close> otherwise.
\<close>

theorem window_start_is_max:
  assumes "length actualDurations < 2 ^ 63"
  shows "sint (window_start W (of_nat (length actualDurations)))
       = (if W = 0 then 0 else max 0 (int (length actualDurations) - uint W))"
  using assms by (rule sint_window_start)

theorem window_start_is_max_witness:
  "length [\<lparr>durationNanos = 5\<rparr>, \<lparr>durationNanos = 6\<rparr>, \<lparr>durationNanos = 7 :: int64_t\<rparr>] < 2 ^ 63
   \<and> sint (window_start 2 3) = 1 \<and> sint (window_start 0 3) = 0 \<and> sint (window_start 9 3) = 0"
  using window_start_is_max [of "[\<lparr>durationNanos = 5\<rparr>, \<lparr>durationNanos = 6\<rparr>, \<lparr>durationNanos = 7\<rparr>]" 2]
    window_start_is_max [of "[\<lparr>durationNanos = 5\<rparr>, \<lparr>durationNanos = 6\<rparr>, \<lparr>durationNanos = 7\<rparr>]" 0]
    window_start_is_max [of "[\<lparr>durationNanos = 5\<rparr>, \<lparr>durationNanos = 6\<rparr>, \<lparr>durationNanos = 7\<rparr>]" 9]
  by simp

section \<open>The integral accumulator stays clamped\<close>



section \<open>Changing the thread set\<close>

text \<open>
  C9. \<open>setThreads\<close> fails with \<open>EX_ILLEGAL_STATE\<close> on a closed session and with
  \<open>EX_ILLEGAL_ARGUMENT\<close> on an empty list; on an open session with a non-empty list it
  succeeds, forwards the thread set to the session manager, and sets the set point to the
  profile's \<open>mUclampMinInit\<close>, which it then votes as the default vote. These two calls
  are the only ones made, in this order. The validity of the vote is a product of
  \<open>double\<close> values and is left open.
\<close>

theorem setThreads_resets_set_point:
  "fst (setThreads cfg env threadIds s)
     = (if mSessionClosed s then EX_ILLEGAL_STATE
        else if threadIds = [] then EX_ILLEGAL_ARGUMENT else ok)
   \<and> (\<not> mSessionClosed s \<and> threadIds \<noteq> [] \<longrightarrow>
        pidSetPoint (mDescriptor (snd (setThreads cfg env threadIds s))) = mUclampMinInit cfg
        \<and> (\<exists>validity.
              calls (snd (setThreads cfg env threadIds s))
                = calls s @ [setThreadsFromPowerSession (mSessionId s) threadIds,
                             voteSet (mSessionId s) ADPF_VOTE_DEFAULT (mUclampMinInit cfg)
                               (now env) validity]))"
  by (simp add: setThreads_def updatePidSetPoint_def emit_def)

theorem setThreads_resets_set_point_witness:
  "\<not> mSessionClosed example_session \<and> [7, 8 :: int32_t] \<noteq> []
   \<and> fst (setThreads example_config example_env [7, 8] example_session) = ok
   \<and> pidSetPoint (mDescriptor (snd (setThreads example_config example_env [7, 8] example_session)))
       = 100
   \<and> setThreadsFromPowerSession 1 [7, 8]
        \<in> set (calls (snd (setThreads example_config example_env [7, 8] example_session)))
   \<and> fst (setThreads example_config example_env [] example_session) = EX_ILLEGAL_ARGUMENT"
proof -
  have open_session: "\<not> mSessionClosed example_session"
    and init: "mUclampMinInit example_config = 100"
    and sid: "mSessionId example_session = 1"
    by (simp_all add: example_defs)
  show ?thesis
    using open_session init sid
      setThreads_resets_set_point [of example_config example_env "[7, 8]" example_session]
      setThreads_resets_set_point [of example_config example_env "[]" example_session]
    by auto
qed

section \<open>Failing calls change nothing\<close>

text \<open>
  C10. Whenever a request returns an error status, the session (descriptor, set point,
  counters, PID accumulators, flags, mode flags, timestamp, hint cache and the log of
  external calls) is exactly as it was before the call.
\<close>

theorem error_leaves_session_unchanged:
  assumes "serve cfg env r s = Inr (st, s')" and "st \<noteq> ok"
  shows "s' = s"
proof (cases r)
  case (ReportActualWorkDuration ds)
  with assms show ?thesis by (simp add: report_error_unchanged)
next
  case (SendHint h)
  with assms show ?thesis by (simp add: sendHint_error_unchanged)
next
  case (SetMode m enabled)
  with assms show ?thesis by (cases m) (auto simp: setMode_def split: if_splits)
qed (use assms in \<open>auto simp: close_def pause_def resume_def updateTargetWorkDuration_def
       setThreads_def Let_def split: if_splits\<close>)

theorem error_leaves_session_unchanged_witness:
  "serve example_config example_env (SetThreads []) example_session
     = Inr (EX_ILLEGAL_ARGUMENT, snd (setThreads example_config example_env [] example_session))
   \<and> EX_ILLEGAL_ARGUMENT \<noteq> ok
   \<and> snd (setThreads example_config example_env [] example_session) = example_session"
proof -
  have h: "serve example_config example_env (SetThreads []) example_session
     = Inr (EX_ILLEGAL_ARGUMENT, snd (setThreads example_config example_env [] example_session))"
    by (simp add: setThreads_def example_defs)
  have "EX_ILLEGAL_ARGUMENT \<noteq> ok" by simp
  from error_leaves_session_unchanged [OF h this] h show ?thesis by simp
qed

end
